theory Spec2Isabelle
  imports Complex_Main
begin

section \<open>AirAuth: the application object of app.js\<close>

text \<open>
  The script keeps one \<open>AirAuthApp\<close> object. Its fields, the user objects it refers to
  and the browser's local storage are modelled as one state record that every method takes
  and returns. User objects live in an explicit store, because the script shares them:
  after a registration or a login \<open>currentUser\<close> is the very object held by the
  \<open>users\<close> map, and after a page reload it is a separate object parsed from storage.

  Conventions of the model:
  \<^item> JavaScript strings are \<open>string\<close>; a character is a code unit below 256. The
    pictographs that open some console and notification messages are left out.
  \<^item> The markup is not part of the sources. Every element the script looks up by id or
    selector is taken to exist, and the inputs \<open>reg-username\<close>, \<open>reg-email\<close>,
    \<open>reg-password\<close> and \<open>reg-confirm-password\<close> are the fields of the registration form.
  \<^item> What the script writes to the page is appended to a log of display events.
  \<^item> Instants are milliseconds since the epoch; \<open>toISOString\<close> renders an instant and
    is not spelled out. The clock, the object URL of a new blob and the random source are
    arguments of the methods that read them.
  \<^item> A stored JSON text is identified with the document it denotes.
\<close>

subsection \<open>Data\<close>

datatype payload = Blob string | PlainObject

record signatureData =
  sig_id :: string
  videoUrl :: string
  blob :: payload
  sig_timestamp :: nat
  duration :: nat

record authEntry =
  timestamp :: nat
  auth_method :: string
  success :: bool
  details :: string

record user =
  user_id :: string
  username :: string
  email :: string
  password :: string
  signatures :: "signatureData list"
  enrollmentComplete :: bool
  createdAt :: nat
  lastLogin :: "nat option"
  authHistory :: "authEntry list"

record localStorage =
  airauth_users :: "(string \<times> user) list option"
  airauth_current_user :: "user option"
  airauth_authenticated :: "string option"

datatype ui_event =
    Notification string string
  | EnrollmentStatus string string
  | ControlStates string string
  | AuthResult string string string
  | AuthResultHidden
  | FieldError string bool string
  | PasswordStrength nat string
  | FormReset
  | ProgressIndicator nat
  | SignatureGallery nat
  | ProfileInfo
  | AuthStats
  | AuthHistoryTable
  | AuthStatus bool
  | PushState string

datatype timer = ShowPageLater string | AfterLogin nat

datatype error = TypeError string | Error string

record app =
  currentUser :: "nat option"
  currentPage :: string
  webcamStream :: bool
  recordedChunks :: "string list"
  signatureCount :: nat
  mediaRecorder :: bool
  isRecording :: bool
  users :: "(string \<times> nat) list"
  isAuthenticated :: bool
  heap :: "user list"
  storage :: localStorage
  ui :: "ui_event list"
  timers :: "(nat \<times> timer) list"

record registerForm =
  f_username :: string
  f_email :: string
  f_password :: string
  f_confirmPassword :: string

record loginForm =
  l_username :: string
  l_password :: string

subsection \<open>Strings and numbers\<close>

text \<open>The white space of \<open>trim\<close> and of the class \<open>\s\<close>, among the code units below 256.\<close>

definition is_space :: "char \<Rightarrow> bool" where
  "is_space c = (let n = (of_char c :: nat) in (9 \<le> n \<and> n \<le> 13) \<or> n = 32 \<or> n = 160)"

definition trim :: "string \<Rightarrow> string" where
  "trim s = rev (dropWhile is_space (rev (dropWhile is_space s)))"

definition is_lower :: "char \<Rightarrow> bool" where
  "is_lower c = (let n = (of_char c :: nat) in 97 \<le> n \<and> n \<le> 122)"

definition is_upper :: "char \<Rightarrow> bool" where
  "is_upper c = (let n = (of_char c :: nat) in 65 \<le> n \<and> n \<le> 90)"

definition is_digit :: "char \<Rightarrow> bool" where
  "is_digit c = (let n = (of_char c :: nat) in 48 \<le> n \<and> n \<le> 57)"

text \<open>The class \<open>\w\<close>, which is \<open>[a-zA-Z0-9_]\<close>.\<close>

definition is_word :: "char \<Rightarrow> bool" where
  "is_word c = (is_lower c \<or> is_upper c \<or> is_digit c \<or> c = CHR ''_'')"

text \<open>\<open>/^[a-zA-Z0-9_]+$/.test(s)\<close>\<close>

definition usernameRegex :: "string \<Rightarrow> bool" where
  "usernameRegex s = (s \<noteq> [] \<and> list_all is_word s)"

text \<open>
  \<open>/^[^\s@]+@[^\s@]+\.[^\s@]+$/.test(s)\<close>: no piece may hold an at sign, so the text
  before the first at sign is the local part and everything after it is the rest, which
  needs a dot with something on both sides.
\<close>

definition is_plain :: "char \<Rightarrow> bool" where
  "is_plain c = (\<not> is_space c \<and> c \<noteq> CHR ''@'')"

definition emailRegex :: "string \<Rightarrow> bool" where
  "emailRegex s =
     (let local = takeWhile (\<lambda>c. c \<noteq> CHR ''@'') s;
          rest = dropWhile (\<lambda>c. c \<noteq> CHR ''@'') s
      in local \<noteq> [] \<and> list_all is_plain local \<and> rest \<noteq> [] \<and>
         list_all is_plain (tl rest) \<and> CHR ''.'' \<in> set (butlast (tl (tl rest))))"

text \<open>Decimal rendering of a number, as \<open>toString\<close> and template literals produce it.\<close>

fun string_of_nat :: "nat \<Rightarrow> string" where
  "string_of_nat n =
     (if n < 10 then [char_of (48 + n)]
      else string_of_nat (n div 10) @ [char_of (48 + n mod 10)])"

declare string_of_nat.simps [simp del]

definition string_of_int :: "int \<Rightarrow> string" where
  "string_of_int i = (if i < 0 then CHR ''-'' # string_of_nat (nat (- i)) else string_of_nat (nat i))"

text \<open>\<open>Math.round\<close> rounds to the nearest integer, a half upwards.\<close>

definition math_round :: "rat \<Rightarrow> int" where
  "math_round x = \<lfloor>x + 1 / 2\<rfloor>"

subsection \<open>Display\<close>

definition display :: "ui_event \<Rightarrow> app \<Rightarrow> app" where
  "display ev st = st\<lparr>ui := ui st @ [ev]\<rparr>"

definition showNotification :: "string \<Rightarrow> string \<Rightarrow> app \<Rightarrow> app" where
  "showNotification message type st = display (Notification message type) st"

definition updateEnrollmentStatus :: "string \<Rightarrow> string \<Rightarrow> app \<Rightarrow> app" where
  "updateEnrollmentStatus message type st = display (EnrollmentStatus message type) st"

definition updateControlStates :: "string \<Rightarrow> string \<Rightarrow> app \<Rightarrow> app" where
  "updateControlStates context state st = display (ControlStates context state) st"

definition showAuthResult :: "string \<Rightarrow> string \<Rightarrow> string \<Rightarrow> app \<Rightarrow> app" where
  "showAuthResult type message details' st = display (AuthResult type message details') st"

definition updateProgressIndicator :: "app \<Rightarrow> app" where
  "updateProgressIndicator st = display (ProgressIndicator (signatureCount st)) st"

definition updateSignatureGallery :: "app \<Rightarrow> app" where
  "updateSignatureGallery st = display (SignatureGallery (signatureCount st)) st"

definition updateAuthStatus :: "app \<Rightarrow> app" where
  "updateAuthStatus st = display (AuthStatus (isAuthenticated st)) st"

subsection \<open>The users map and the object store\<close>

definition deref :: "app \<Rightarrow> nat \<Rightarrow> user" where
  "deref st a = heap st ! a"

definition update_user :: "nat \<Rightarrow> (user \<Rightarrow> user) \<Rightarrow> app \<Rightarrow> app" where
  "update_user a f st = st\<lparr>heap := (heap st)[a := f (heap st ! a)]\<rparr>"

definition users_has :: "app \<Rightarrow> string \<Rightarrow> bool" where
  "users_has st k = (map_of (users st) k \<noteq> None)"

definition users_get :: "app \<Rightarrow> string \<Rightarrow> nat option" where
  "users_get st k = map_of (users st) k"

text \<open>\<open>Map.set\<close>: a known key keeps its place, a new key goes last.\<close>

fun map_set :: "(string \<times> nat) list \<Rightarrow> string \<Rightarrow> nat \<Rightarrow> (string \<times> nat) list" where
  "map_set [] k v = [(k, v)]"
| "map_set ((k', v') # m) k v = (if k' = k then (k, v) # m else (k', v') # map_set m k v)"

definition users_values :: "app \<Rightarrow> nat list" where
  "users_values st = map snd (users st)"

text \<open>\<open>Array.from(this.users.values()).some(user => user.email === email)\<close>\<close>

definition email_registered :: "app \<Rightarrow> string \<Rightarrow> bool" where
  "email_registered st e = list_ex (\<lambda>a. email (deref st a) = e) (users_values st)"

text \<open>\<open>Array.from(this.users.values()).find(u => u.email === username)\<close>\<close>

definition find_by_email :: "app \<Rightarrow> string \<Rightarrow> nat option" where
  "find_by_email st e = List.find (\<lambda>a. email (deref st a) = e) (users_values st)"

text \<open>The lookup of \<open>handleLogin\<close>: by username first, then by email.\<close>

definition find_user :: "app \<Rightarrow> string \<Rightarrow> nat option" where
  "find_user st ident =
     (case users_get st ident of Some a \<Rightarrow> Some a | None \<Rightarrow> find_by_email st ident)"

subsection \<open>Persistence\<close>

text \<open>
  What \<open>JSON.parse\<close> reads back from the text \<open>JSON.stringify\<close> writes for a user
  object. A \<open>Blob\<close> has no enumerable property of its own, so it is written as \<open>{}\<close>;
  strings, numbers, booleans, \<open>null\<close> and arrays are written as they are.
\<close>

definition json_signature :: "signatureData \<Rightarrow> signatureData" where
  "json_signature s = s\<lparr>blob := PlainObject\<rparr>"

definition json_user :: "user \<Rightarrow> user" where
  "json_user u = u\<lparr>signatures := map json_signature (signatures u)\<rparr>"

definition saveUserData :: "app \<Rightarrow> app" where
  "saveUserData st =
     (let usersArray = map (\<lambda>(k, a). (k, deref st a)) (users st);
          s1 = (storage st)\<lparr>airauth_users := Some (map (\<lambda>(k, u). (k, json_user u)) usersArray)\<rparr>;
          s2 = (case currentUser st of
                  Some a \<Rightarrow>
                    if isAuthenticated st
                    then s1\<lparr>airauth_current_user := Some (json_user (deref st a)),
                            airauth_authenticated := Some ''true''\<rparr>
                    else s1\<lparr>airauth_current_user := None, airauth_authenticated := None\<rparr>
                | None \<Rightarrow> s1\<lparr>airauth_current_user := None, airauth_authenticated := None\<rparr>)
      in st\<lparr>storage := s2\<rparr>)"

text \<open>
  \<open>loadUserData\<close>: \<open>JSON.parse\<close> makes a new object for every stored user, and
  \<open>new Map(usersData)\<close> sets the entries in order. The stored current user is parsed
  into an object of its own. The \<open>catch\<close> branch runs on a text that is not a JSON
  document, which a typed store does not hold.
\<close>

definition loadUserData :: "app \<Rightarrow> app" where
  "loadUserData st =
     (let st1 = (case airauth_users (storage st) of
                   None \<Rightarrow> st
                 | Some usersData \<Rightarrow>
                     let base = length (heap st);
                         entries = zip (map fst usersData) [base ..< base + length usersData]
                     in st\<lparr>heap := heap st @ map snd usersData,
                           users := foldl (\<lambda>m (k, a). map_set m k a) [] entries\<rparr>)
      in case airauth_current_user (storage st1) of
           None \<Rightarrow> st1
         | Some userData \<Rightarrow>
             if airauth_authenticated (storage st1) = Some ''true''
             then st1\<lparr>heap := heap st1 @ [userData],
                      currentUser := Some (length (heap st1)),
                      isAuthenticated := True\<rparr>
             else st1)"

definition addAuthHistory :: "nat \<Rightarrow> string \<Rightarrow> bool \<Rightarrow> string \<Rightarrow> app \<Rightarrow> app" where
  "addAuthHistory now method' success' details' st =
     (case currentUser st of
        None \<Rightarrow> st
      | Some a \<Rightarrow>
          let authEntry = \<lparr>timestamp = now, auth_method = method', success = success',
                           details = details'\<rparr>
          in saveUserData (update_user a (\<lambda>u. u\<lparr>authHistory := authHistory u @ [authEntry]\<rparr>) st))"

definition checkAuthStatus :: "app \<Rightarrow> app" where
  "checkAuthStatus st =
     (if airauth_authenticated (storage st) = Some ''true'' \<and> currentUser st \<noteq> None
      then updateAuthStatus st else st)"

subsection \<open>Form validation\<close>

text \<open>
  The validators as \<open>validateRegistrationForm\<close> calls them, with no event and the value
  given; \<open>value || input.value\<close> falls back to the input when the value is empty.
\<close>

definition validateUsername :: "registerForm \<Rightarrow> string \<Rightarrow> app \<Rightarrow> bool \<times> app" where
  "validateUsername inputs value st =
     (let username' = (if value \<noteq> [] then value else trim (f_username inputs));
          (isValid, message) =
            (if length username' < 3
             then (False, ''Username must be at least 3 characters long'')
             else if \<not> usernameRegex username'
             then (False, ''Username can only contain letters, numbers, and underscores'')
             else if users_has st username'
             then (False, ''Username already exists'')
             else (True, []))
      in (isValid, display (FieldError ''reg-username'' (\<not> isValid) message) st))"

definition validateEmail :: "registerForm \<Rightarrow> string \<Rightarrow> app \<Rightarrow> bool \<times> app" where
  "validateEmail inputs value st =
     (let email' = (if value \<noteq> [] then value else trim (f_email inputs));
          (isValid, message) =
            (if \<not> emailRegex email'
             then (False, ''Please enter a valid email address'')
             else if email_registered st email'
             then (False, ''Email already registered'')
             else (True, []))
      in (isValid, display (FieldError ''reg-email'' (\<not> isValid) message) st))"

definition password_strength :: "string \<Rightarrow> nat" where
  "password_strength p =
     (if length p \<ge> 8 then 20 else 0) +
     (if list_ex is_lower p then 20 else 0) +
     (if list_ex is_upper p then 20 else 0) +
     (if list_ex is_digit p then 20 else 0) +
     (if list_ex (\<lambda>c. \<not> is_word c \<and> \<not> is_space c) p then 20 else 0)"

definition strength_label :: "nat \<Rightarrow> string" where
  "strength_label strength =
     (if strength \<le> 40 then ''Weak'' else if strength \<le> 60 then ''Fair''
      else if strength \<le> 80 then ''Good'' else ''Strong'')"

definition validatePassword :: "registerForm \<Rightarrow> string \<Rightarrow> app \<Rightarrow> bool \<times> app" where
  "validatePassword inputs value st =
     (let password' = (if value \<noteq> [] then value else f_password inputs);
          (isValid, message, strength, strengthLabel) =
            (if length password' < 8
             then (False, ''Password must be at least 8 characters long'', 0, [])
             else (True, [], password_strength password',
                   strength_label (password_strength password')))
      in (isValid,
          display (PasswordStrength strength strengthLabel)
            (display (FieldError ''reg-password'' (\<not> isValid) message) st)))"

definition validateConfirmPassword ::
  "registerForm \<Rightarrow> string \<Rightarrow> string \<Rightarrow> app \<Rightarrow> bool \<times> app" where
  "validateConfirmPassword inputs value originalPassword st =
     (let confirmPassword = (if value \<noteq> [] then value else f_confirmPassword inputs);
          password' = (if originalPassword \<noteq> [] then originalPassword else f_password inputs);
          (isValid, message) =
            (if confirmPassword \<noteq> password' then (False, ''Passwords do not match'')
             else (True, []))
      in (isValid, display (FieldError ''reg-confirm-password'' (\<not> isValid) message) st))"

definition validateRegistrationForm ::
  "registerForm \<Rightarrow> string \<Rightarrow> string \<Rightarrow> string \<Rightarrow> string \<Rightarrow> app \<Rightarrow> bool \<times> app" where
  "validateRegistrationForm inputs username' email' password' confirmPassword st =
     (let (ok1, st1) = validateUsername inputs username' st;
          (ok2, st2) = validateEmail inputs email' st1;
          (ok3, st3) = validatePassword inputs password' st2;
          (ok4, st4) = validateConfirmPassword inputs confirmPassword password' st3
      in (ok1 \<and> ok2 \<and> ok3 \<and> ok4, st4))"

definition resetRegistrationForm :: "app \<Rightarrow> app" where
  "resetRegistrationForm st = display FormReset st"

subsection \<open>Registration and login\<close>

definition handleRegistration :: "nat \<Rightarrow> registerForm \<Rightarrow> app \<Rightarrow> app" where
  "handleRegistration now form st =
     (let username' = trim (f_username form);
          email' = trim (f_email form);
          password' = f_password form;
          confirmPassword = f_confirmPassword form;
          (valid, st1) =
            validateRegistrationForm form username' email' password' confirmPassword st
      in if \<not> valid then st1
         else if users_has st1 username' \<or> email_registered st1 email'
         then showNotification ''Username or email already exists!'' ''error'' st1
         else
           let newUser = \<lparr>user_id = string_of_nat now, username = username', email = email',
                          password = password', signatures = [], enrollmentComplete = False,
                          createdAt = now, lastLogin = None, authHistory = []\<rparr>;
               a = length (heap st1);
               st2 = st1\<lparr>heap := heap st1 @ [newUser],
                        users := map_set (users st1) username' a\<rparr>;
               st3 = saveUserData st2;
               st4 = showNotification ''Registration successful! Please complete enrollment.''
                       ''success'' st3;
               st5 = st4\<lparr>currentUser := Some a, isAuthenticated := True\<rparr>;
               st6 = updateAuthStatus st5
           in st6\<lparr>timers := timers st6 @ [(1500, ShowPageLater ''enrollment'')]\<rparr>)"

definition handleLogin :: "nat \<Rightarrow> loginForm \<Rightarrow> app \<Rightarrow> app" where
  "handleLogin now form st =
     (let username' = trim (l_username form);
          password' = l_password form;
          rejected = addAuthHistory now ''Password Login'' False ''Invalid credentials''
                       (showNotification ''Invalid username/email or password!'' ''error'' st)
      in case find_user st username' of
           None \<Rightarrow> rejected
         | Some a \<Rightarrow>
             if password (deref st a) \<noteq> password' then rejected
             else
               let st1 = st\<lparr>currentUser := Some a, isAuthenticated := True\<rparr>;
                   st2 = update_user a (\<lambda>u. u\<lparr>lastLogin := Some now\<rparr>) st1;
                   st3 = saveUserData (updateAuthStatus st2);
                   st4 = addAuthHistory now ''Password Login'' True ''Successful login'' st3;
                   st5 = showNotification (''Welcome back, '' @ username (deref st4 a) @ ''!'')
                           ''success'' st4
               in st5\<lparr>timers := timers st5 @ [(1500, AfterLogin a)]\<rparr>)"

subsection \<open>Camera and recording\<close>

text \<open>
  \<open>startCamera\<close> awaits \<open>getUserMedia\<close>; the argument is the name of the error it
  rejects with, if it does.
\<close>

definition startCamera :: "string \<Rightarrow> string option \<Rightarrow> app \<Rightarrow> app" where
  "startCamera context rejection st =
     (case rejection of
        None \<Rightarrow>
          updateControlStates context ''camera-ready''
            (updateEnrollmentStatus ''Camera ready. You can now start recording.'' ''info''
              (showNotification ''Camera started successfully!'' ''success''
                (st\<lparr>webcamStream := True\<rparr>)))
      | Some name \<Rightarrow>
          let message = ''Unable to access camera. '' @
                (if name = ''NotAllowedError''
                 then ''Please grant camera permissions and try again.''
                 else if name = ''NotFoundError'' then ''No camera found on this device.''
                 else ''Please check your camera and try again.'')
          in updateEnrollmentStatus message ''error'' (showNotification message ''error'' st))"

definition stopCamera :: "app \<Rightarrow> app" where
  "stopCamera st =
     (if webcamStream st
      then showNotification ''Camera stopped'' ''info'' (st\<lparr>webcamStream := False\<rparr>)
      else st)"

definition startRecording :: "app \<Rightarrow> app" where
  "startRecording st =
     (if \<not> webcamStream st then showNotification ''Please start the camera first!'' ''error'' st
      else
        showNotification ''Recording started! Draw your air signature now.'' ''info''
          (updateEnrollmentStatus ''Recording... Draw your signature in the air!'' ''info''
            (updateControlStates ''enrollment'' ''recording''
              (st\<lparr>mediaRecorder := True, recordedChunks := [], isRecording := True\<rparr>))))"

text \<open>The recorder's \<open>ondataavailable\<close> and \<open>onstop\<close> handlers.\<close>

definition ondataavailable :: "string \<Rightarrow> app \<Rightarrow> app" where
  "ondataavailable data st =
     (if length data > 0 then st\<lparr>recordedChunks := recordedChunks st @ [data]\<rparr> else st)"

definition onstop :: "app \<Rightarrow> app" where
  "onstop st =
     updateEnrollmentStatus ''Recording complete! Click \"Save Signature\" to save it.'' ''success''
       (updateControlStates ''enrollment'' ''recorded'' st)"

definition stopRecording :: "app \<Rightarrow> app" where
  "stopRecording st =
     (if mediaRecorder st \<and> isRecording st then onstop (st\<lparr>isRecording := False\<rparr>) else st)"

subsection \<open>Signature enrollment\<close>

definition saveSignature :: "nat \<Rightarrow> string \<Rightarrow> app \<Rightarrow> app" where
  "saveSignature now url st =
     (if length (recordedChunks st) = 0 then showNotification ''No recording to save!'' ''error'' st
      else
        let blob' = Blob (concat (recordedChunks st));
            signatureData = \<lparr>sig_id = string_of_nat now, videoUrl = url, blob = blob',
                              sig_timestamp = now, duration = length (recordedChunks st)\<rparr>
        in case currentUser st of
             Some a \<Rightarrow>
               let st1 = update_user a (\<lambda>u. u\<lparr>signatures := signatures u @ [signatureData]\<rparr>) st;
                   st2 = st1\<lparr>signatureCount := length (signatures (deref st1 a))\<rparr>;
                   st3 = saveUserData st2;
                   st4 = updateProgressIndicator (updateSignatureGallery st3);
                   st5 = updateEnrollmentStatus
                           (''Signature '' @ string_of_nat (signatureCount st4) @
                            ''/5 saved successfully!'') ''success'' st4;
                   st6 = showNotification
                           (''Signature '' @ string_of_nat (signatureCount st5) @ '' saved! '' @
                            string_of_int (5 - int (signatureCount st5)) @ '' more to go.'')
                           ''success'' st5;
                   st7 = (if signatureCount st6 \<ge> 5
                          then showNotification
                                 ''Enrollment complete! You can now use air signature authentication.''
                                 ''success''
                                 (updateEnrollmentStatus
                                    ''Enrollment complete! Click \"Finish Enrollment\" to complete setup.''
                                    ''success''
                                    (updateControlStates ''enrollment'' ''enrollment-complete''
                                       (update_user a (\<lambda>u. u\<lparr>enrollmentComplete := True\<rparr>) st6)))
                          else st6)
               in updateControlStates ''enrollment'' ''camera-ready'' (st7\<lparr>recordedChunks := []\<rparr>)
           | None \<Rightarrow>
               updateEnrollmentStatus ''Failed to save signature. Please try again.'' ''error''
                 (showNotification ''Failed to save signature. Please try again.'' ''error'' st))"

definition finishEnrollment :: "app \<Rightarrow> app" where
  "finishEnrollment st =
     (if (case currentUser st of None \<Rightarrow> True | Some a \<Rightarrow> \<not> enrollmentComplete (deref st a))
      then showNotification ''Please complete all 5 signatures first!'' ''error'' st
      else
        let st1 = updateAuthStatus (saveUserData (stopCamera st));
            st2 = showNotification
                    ''Enrollment completed successfully! You can now use air signature authentication.''
                    ''success'' st1
        in st2\<lparr>timers := timers st2 @ [(2000, ShowPageLater ''dashboard'')]\<rparr>)"

definition resetEnrollment :: "app \<Rightarrow> app" where
  "resetEnrollment st =
     (let st1 = st\<lparr>signatureCount :=
                      (case currentUser st of Some a \<Rightarrow> length (signatures (deref st a)) | None \<Rightarrow> 0),
                    recordedChunks := [], isRecording := False\<rparr>
      in updateEnrollmentStatus ''Click \"Start Camera\" to begin enrollment process.'' ''info''
           (updateSignatureGallery
             (updateProgressIndicator
               (updateControlStates ''enrollment'' ''initial'' (stopCamera st1)))))"

subsection \<open>Pages\<close>

definition resetAuthTest :: "app \<Rightarrow> app" where
  "resetAuthTest st =
     display AuthResultHidden (updateControlStates ''auth'' ''initial'' (stopCamera st))"

definition updateProfileInfo :: "app \<Rightarrow> app" where
  "updateProfileInfo st = display ProfileInfo st"

definition updateAuthStats :: "app \<Rightarrow> app" where
  "updateAuthStats st = display AuthStats st"

definition updateAuthHistoryTable :: "app \<Rightarrow> app" where
  "updateAuthHistoryTable st = display AuthHistoryTable st"

text \<open>
  Modelled from the spec: the page elements of the markup, which the sources do not hold.
  The spec names the pages home, login, register, enrollment, auth-test and dashboard.
\<close>

definition pages :: "string list" where
  "pages = [''home'', ''login'', ''register'', ''enrollment'', ''auth-test'', ''dashboard'']"

text \<open>
  \<open>showPage\<close> makes the page current, runs its initialisation and pushes the fragment
  onto the browser history. The initialisation of the dashboard and of the login page may
  call \<open>showPage\<close> again. The style classes that \<open>updateNavigation\<close> toggles are left out.
\<close>

text \<open>
  How many further pages a request may still be sent on to; it bounds the recursion of
  \<open>showPage\<close>.
\<close>

definition redirects :: "string \<Rightarrow> app \<Rightarrow> nat" where
  "redirects pageId st =
     (if currentUser st = None then (if pageId = ''dashboard'' then 1 else 0)
      else (if pageId = ''login'' then 1 else 0))"

function showPage :: "string \<Rightarrow> app \<Rightarrow> app"
  and initializePage :: "string \<Rightarrow> app \<Rightarrow> app"
  and updateDashboard :: "app \<Rightarrow> app"
  and checkLoginRedirect :: "app \<Rightarrow> app"
where
  "showPage pageId st =
     (if pageId \<in> set pages
      then display (PushState pageId) (initializePage pageId (st\<lparr>currentPage := pageId\<rparr>))
      else showNotification (''Page '' @ [CHR 0x22] @ pageId @ [CHR 0x22] @ '' not found'')
             ''error'' st)"
| "initializePage pageId st =
     (if pageId = ''dashboard'' then updateDashboard st
      else if pageId = ''enrollment'' then resetEnrollment st
      else if pageId = ''auth-test'' then resetAuthTest st
      else if pageId = ''login'' then checkLoginRedirect st
      else if pageId = ''register'' then resetRegistrationForm st
      else st)"
| "updateDashboard st =
     (if currentUser st = None
      then showPage ''login'' (showNotification ''Please log in to access dashboard'' ''error'' st)
      else updateAuthHistoryTable (updateAuthStats (updateProfileInfo st)))"
| "checkLoginRedirect st =
     (if isAuthenticated st \<and> currentUser st \<noteq> None then showPage ''dashboard'' st else st)"
  by pat_completeness auto

termination
  by (relation "measure (\<lambda>x. case x of
          Inl (Inl (pageId, st)) \<Rightarrow> 3 * redirects pageId st + 2
        | Inl (Inr (pageId, st)) \<Rightarrow> 3 * redirects pageId st + 1
        | Inr (Inl st) \<Rightarrow> 3 * redirects ''dashboard'' st
        | Inr (Inr st) \<Rightarrow> 3 * redirects ''login'' st)")
     (auto simp: redirects_def showNotification_def display_def)

declare showPage.simps [simp del] initializePage.simps [simp del]
  updateDashboard.simps [simp del] checkLoginRedirect.simps [simp del]

definition handleAirAuth :: "app \<Rightarrow> app" where
  "handleAirAuth st =
     (if (case currentUser st of None \<Rightarrow> True | Some a \<Rightarrow> \<not> enrollmentComplete (deref st a))
      then showPage ''enrollment'' (showNotification ''Please complete enrollment first!'' ''error'' st)
      else showPage ''auth-test'' st)"

text \<open>The callbacks that \<open>setTimeout\<close> holds back, run when the timer fires.\<close>

definition runTimer :: "timer \<Rightarrow> app \<Rightarrow> app" where
  "runTimer t st =
     (case t of
        ShowPageLater pageId \<Rightarrow> showPage pageId st
      | AfterLogin a \<Rightarrow>
          if enrollmentComplete (deref st a) then showPage ''dashboard'' st
          else showPage ''enrollment'' st)"

subsection \<open>Authentication test\<close>

text \<open>
  The recognition is simulated: the first draw of the random source decides the outcome,
  the second one the confidence. \<open>uniform n\<close> is the value of the call number \<open>n\<close>
  of \<open>Math.random\<close>. The draws are exact rationals and the sums are exact, where the
  script computes in IEEE doubles: the two agree whenever the product and the sum are
  representable, as for the draws 0.05 and 0.5, which give 32 and 90 either way. For a draw
  that brings the exact sum just below a half, the double sum can round up to the half and
  the script's confidence is then one more than the one computed here. Nothing below rests
  on the confidence of such a draw.
\<close>

definition recognition :: "(nat \<Rightarrow> rat) \<Rightarrow> bool \<times> int" where
  "recognition uniform =
     (let isAuthenticated' = (uniform 0 > 1 / 10);
          confidence = (if isAuthenticated' then math_round (85 + uniform 1 * 10)
                        else math_round (30 + uniform 1 * 40))
      in (isAuthenticated', confidence))"

text \<open>
  \<open>simulateGestureRecognition\<close>, after its delay of 3000 ms. The message of a success
  reads \<open>this.currentUser.username\<close>, which throws when nobody is logged in any more.
\<close>

definition simulateGestureRecognition :: "nat \<Rightarrow> (nat \<Rightarrow> rat) \<Rightarrow> app \<Rightarrow> error + app" where
  "simulateGestureRecognition now uniform st =
     (let (isAuthenticated', confidence) = recognition uniform
      in if isAuthenticated'
         then (case currentUser st of
                 None \<Rightarrow> Inl (TypeError ''Cannot read properties of null'')
               | Some a \<Rightarrow>
                   Inr (showNotification ''Authentication successful!'' ''success''
                         (addAuthHistory now ''Air Signature'' True
                            (string_of_int confidence @ ''% confidence'')
                            (showAuthResult ''success'' ''Authentication Successful!''
                               (''Gesture recognized with '' @ string_of_int confidence @
                                ''% confidence. Welcome, '' @ username (deref st a) @ ''!'') st))))
         else Inr (showNotification ''Authentication failed. Please try again.'' ''error''
                    (addAuthHistory now ''Air Signature'' False
                       (''Low confidence ('' @ string_of_int confidence @ ''%)'')
                       (showAuthResult ''error'' ''Authentication Failed''
                          (''Gesture not recognized ('' @ string_of_int confidence @
                           ''% confidence). Please try again.'') st))))"

definition authenticateGesture :: "nat \<Rightarrow> (nat \<Rightarrow> rat) \<Rightarrow> app \<Rightarrow> app" where
  "authenticateGesture now uniform st =
     (if (case currentUser st of None \<Rightarrow> True | Some a \<Rightarrow> \<not> enrollmentComplete (deref st a))
      then showPage ''enrollment'' (showNotification ''Please complete enrollment first!'' ''error'' st)
      else if \<not> webcamStream st
      then showNotification ''Please start the camera first!'' ''error'' st
      else
        let st1 = showAuthResult ''processing'' ''Processing...'' ''Analyzing your gesture...'' st
        in case simulateGestureRecognition now uniform st1 of
             Inr st2 \<Rightarrow> st2
           | Inl err \<Rightarrow>
               addAuthHistory now ''Air Signature'' False ''System error''
                 (showAuthResult ''error'' ''Authentication Failed''
                    ''An error occurred during authentication.'' st1))"

subsection \<open>Logout, start and reload\<close>

definition logout :: "app \<Rightarrow> app" where
  "logout st =
     (let st1 = (stopCamera st)\<lparr>currentUser := None, isAuthenticated := False,
                                 signatureCount := 0\<rparr>;
          st2 = st1\<lparr>storage := (storage st1)\<lparr>airauth_current_user := None,
                                                airauth_authenticated := None\<rparr>\<rparr>
      in showPage ''home'' (showNotification ''Logged out successfully'' ''info'' st2))"

definition empty_storage :: localStorage where
  "empty_storage = \<lparr>airauth_users = None, airauth_current_user = None,
                    airauth_authenticated = None\<rparr>"

text \<open>The constructor's fields, over the local storage the browser holds.\<close>

definition new_app :: "localStorage \<Rightarrow> app" where
  "new_app store =
     \<lparr>currentUser = None, currentPage = ''home'', webcamStream = False, recordedChunks = [],
      signatureCount = 0, mediaRecorder = False, isRecording = False, users = [],
      isAuthenticated = False, heap = [], storage = store, ui = [], timers = []\<rparr>"

definition init :: "app \<Rightarrow> app" where
  "init st =
     showNotification ''Welcome to AirAuth! Your secure gesture authentication system.'' ''info''
       (showPage ''home'' (checkAuthStatus (loadUserData st)))"

text \<open>
  Loading the page again builds a new application object; of the old state only the local
  storage is left.
\<close>

definition reload :: "app \<Rightarrow> app" where
  "reload st = init (new_app (storage st))"

subsection \<open>Notions used in the statements\<close>

text \<open>The checks of \<open>validateUsername\<close> and of \<open>validateEmail\<close>, as conditions.\<close>

abbreviation username_ok :: "app \<Rightarrow> string \<Rightarrow> bool" where
  "username_ok st u \<equiv> 3 \<le> length u \<and> usernameRegex u \<and> \<not> users_has st u"

abbreviation email_ok :: "app \<Rightarrow> string \<Rightarrow> bool" where
  "email_ok st e \<equiv> emailRegex e \<and> \<not> email_registered st e"

subsection \<open>Sample states\<close>

text \<open>A session of a user who has saved five signatures, with the camera on and a clip recorded.\<close>

definition sample_signature :: "nat \<Rightarrow> signatureData" where
  "sample_signature n = \<lparr>sig_id = string_of_nat n, videoUrl = ''blob:sample'', blob = Blob ''clip'',
                          sig_timestamp = n, duration = 1\<rparr>"

definition enrolled_user :: user where
  "enrolled_user = \<lparr>user_id = ''1000'', username = ''alice'', email = ''alice@example.com'',
                     password = ''password1'', signatures = map sample_signature [1, 2, 3, 4, 5],
                     enrollmentComplete = True, createdAt = 1000, lastLogin = None,
                     authHistory = []\<rparr>"

definition enrolled_session :: app where
  "enrolled_session =
     (new_app empty_storage)\<lparr>currentUser := Some 0, users := [(''alice'', 0)],
        isAuthenticated := True, heap := [enrolled_user], webcamStream := True,
        recordedChunks := [''clip'']\<rparr>"

text \<open>Two registration forms: one for a new user, typed with blanks around the name, and one
  that repeats the name and the address of the sample user.\<close>

definition bob_form :: registerForm where
  "bob_form = \<lparr>f_username = '' bob_2 '', f_email = ''bob@example.org'',
               f_password = ''s3cret-word'', f_confirmPassword = ''s3cret-word''\<rparr>"

definition alice_form :: registerForm where
  "alice_form = \<lparr>f_username = ''alice'', f_email = ''alice@example.com'',
                 f_password = ''password1'', f_confirmPassword = ''password1''\<rparr>"

text \<open>A login with a wrong password, and the sample user logged out.\<close>

definition wrong_login :: loginForm where
  "wrong_login = \<lparr>l_username = ''alice'', l_password = ''not-the-password''\<rparr>"

definition logged_out_session :: app where
  "logged_out_session = enrolled_session\<lparr>currentUser := None, isAuthenticated := False\<rparr>"

text \<open>
  A run of the application from an empty local storage: the sample user registers, opens
  the enrollment page, starts the camera, and four times records a clip and saves it.
\<close>

definition started :: app where
  "started = init (new_app empty_storage)"

definition registered :: app where
  "registered = handleRegistration 1000 alice_form started"

definition camera_on :: app where
  "camera_on = startCamera ''enrollment'' None (runTimer (ShowPageLater ''enrollment'') registered)"

definition recorded :: "app \<Rightarrow> app" where
  "recorded st = stopRecording (ondataavailable ''clip'' (startRecording st))"

definition record_and_save :: "nat \<Rightarrow> app \<Rightarrow> app" where
  "record_and_save now st = saveSignature now (''blob:'' @ string_of_nat now) (recorded st)"

definition four_saved :: app where
  "four_saved = record_and_save 2004 (record_and_save 2003 (record_and_save 2002
                  (record_and_save 2001 camera_on)))"

section \<open>Properties\<close>

subsection \<open>Auxiliary facts\<close>

lemmas display_defs = display_def showNotification_def updateEnrollmentStatus_def
  updateControlStates_def showAuthResult_def updateProgressIndicator_def
  updateSignatureGallery_def updateAuthStatus_def updateProfileInfo_def updateAuthStats_def
  updateAuthHistoryTable_def resetRegistrationForm_def

lemmas page_simps = showPage.simps initializePage.simps updateDashboard.simps
  checkLoginRedirect.simps pages_def

lemma saveUserData_fields [simp]:
  "heap (saveUserData st) = heap st"
  "users (saveUserData st) = users st"
  "currentUser (saveUserData st) = currentUser st"
  "isAuthenticated (saveUserData st) = isAuthenticated st"
  "ui (saveUserData st) = ui st"
  "signatureCount (saveUserData st) = signatureCount st"
  "recordedChunks (saveUserData st) = recordedChunks st"
  "webcamStream (saveUserData st) = webcamStream st"
  "currentPage (saveUserData st) = currentPage st"
  "timers (saveUserData st) = timers st"
  by (simp_all add: saveUserData_def Let_def)

lemma showPage_enrollment: "currentPage (showPage ''enrollment'' st) = ''enrollment''"
  by (simp add: page_simps display_defs resetEnrollment_def stopCamera_def Let_def)

lemma recognition_low: "recognition (\<lambda>_. 1 / 20) = (False, 32)"
  by code_simp

lemma recognition_high: "recognition (\<lambda>_. 1 / 2) = (True, 90)"
  by code_simp

text \<open>
  For a source with values in the unit interval the confidence of a success lies between 85
  and 95 and that of a failure between 30 and 70.
\<close>

lemma recognition_range:
  assumes "0 \<le> uniform 1" "uniform 1 < 1"
  shows "fst (recognition uniform) \<Longrightarrow>
           85 \<le> snd (recognition uniform) \<and> snd (recognition uniform) \<le> 95"
    and "\<not> fst (recognition uniform) \<Longrightarrow>
           30 \<le> snd (recognition uniform) \<and> snd (recognition uniform) \<le> 70"
  using assms by (auto simp: recognition_def math_round_def Let_def le_floor_iff floor_le_iff)

text \<open>The history entry an attempt writes, from the two draws of the source.\<close>

lemma authenticateGesture_heap:
  assumes "currentUser st = Some a" "enrollmentComplete (deref st a)" "webcamStream st"
  shows "heap (authenticateGesture now uniform st) =
           (heap st)[a := (heap st ! a)\<lparr>authHistory := authHistory (heap st ! a) @
              [\<lparr>timestamp = now, auth_method = ''Air Signature'', success = fst (recognition uniform),
                details = (if fst (recognition uniform)
                           then string_of_int (snd (recognition uniform)) @ ''% confidence''
                           else ''Low confidence ('' @ string_of_int (snd (recognition uniform)) @
                                ''%)'')\<rparr>]\<rparr>]"
  using assms
  by (simp add: authenticateGesture_def simulateGestureRecognition_def addAuthHistory_def Let_def
       display_defs update_user_def deref_def split: prod.splits)

lemma enrolled_session_facts:
  "currentUser enrolled_session = Some 0"
  "0 < length (heap enrolled_session)"
  "enrollmentComplete (deref enrolled_session 0)"
  "webcamStream enrolled_session"
  "recordedChunks enrolled_session \<noteq> []"
  "length (signatures (deref enrolled_session 0)) = 5"
  "authHistory (deref enrolled_session 0) = []"
  by (simp_all add: enrolled_session_def enrolled_user_def new_app_def deref_def)

lemma enrolled_session_heap:
  "heap enrolled_session = [enrolled_user]"
  "authHistory enrolled_user = []"
  by (simp_all add: enrolled_session_def enrolled_user_def new_app_def)

lemma display_lookups [simp]:
  "users_has (display ev st) k = users_has st k"
  "email_registered (display ev st) e = email_registered st e"
  "users (display ev st) = users st"
  "heap (display ev st) = heap st"
  "currentUser (display ev st) = currentUser st"
  "isAuthenticated (display ev st) = isAuthenticated st"
  "storage (display ev st) = storage st"
  "timers (display ev st) = timers st"
  by (simp_all add: display_def users_has_def email_registered_def users_values_def deref_def)

lemma lookups_cong:
  "users st' = users st \<Longrightarrow> heap st' = heap st \<Longrightarrow> users_has st' k = users_has st k"
  "users st' = users st \<Longrightarrow> heap st' = heap st \<Longrightarrow>
     email_registered st' e = email_registered st e"
  by (simp_all add: users_has_def email_registered_def users_values_def deref_def)

lemma map_set_fresh: "map_of m k = None \<Longrightarrow> map_set m k v = m @ [(k, v)]"
  by (induction m) (auto split: if_splits)

lemma find_snoc:
  "\<forall>x \<in> set xs. \<not> P x \<Longrightarrow> P a \<Longrightarrow> List.find P (xs @ [a]) = Some a"
  by (induction xs) auto

text \<open>
  \<open>emailRegex\<close> accepts the language of the pattern: a local part, an at sign, a domain, a
  dot and an ending, each part nonempty and free of white space and at signs.
\<close>

lemma dot_plain: "is_plain CHR ''.''"
  by (simp add: is_plain_def is_space_def)

lemma emailRegex_intro:
  assumes "a \<noteq> []" "b \<noteq> []" "c \<noteq> []" "list_all is_plain a" "list_all is_plain b"
    "list_all is_plain c"
  shows "emailRegex (a @ ''@'' @ b @ ''.'' @ c)"
proof -
  have na: "\<forall>x \<in> set a. x \<noteq> CHR ''@''"
    using assms(4) by (auto simp: list_all_iff is_plain_def)
  have tw: "takeWhile (\<lambda>c. c \<noteq> CHR ''@'') (a @ ''@'' @ b @ ''.'' @ c) = a"
    using na by (simp add: takeWhile_append2)
  have dw: "dropWhile (\<lambda>c. c \<noteq> CHR ''@'') (a @ ''@'' @ b @ ''.'' @ c) = ''@'' @ b @ ''.'' @ c"
    using na by (simp add: dropWhile_append2)
  obtain x b' where b: "b = x # b'"
    using assms(2) by (cases b) auto
  have "CHR ''.'' \<in> set (butlast (b' @ ''.'' @ c))"
    using assms(3) by (simp add: butlast_append)
  then show ?thesis
    unfolding emailRegex_def tw dw Let_def
    using assms dot_plain by (simp add: b)
qed

lemma emailRegex_elim:
  assumes "emailRegex s"
  shows "\<exists>a b c. s = a @ ''@'' @ b @ ''.'' @ c \<and> a \<noteq> [] \<and> b \<noteq> [] \<and> c \<noteq> [] \<and>
           list_all is_plain a \<and> list_all is_plain b \<and> list_all is_plain c"
proof -
  let ?a = "takeWhile (\<lambda>c. c \<noteq> CHR ''@'') s" and ?r = "dropWhile (\<lambda>c. c \<noteq> CHR ''@'') s"
  from assms have a: "?a \<noteq> []" "list_all is_plain ?a" and r: "?r \<noteq> []"
    and d: "list_all is_plain (tl ?r)" and dot: "CHR ''.'' \<in> set (butlast (tl (tl ?r)))"
    by (simp_all add: emailRegex_def Let_def)
  from r have "hd ?r = CHR ''@''"
    using hd_dropWhile [of "\<lambda>c. c \<noteq> CHR ''@''" s] by auto
  with r obtain d where rd: "?r = CHR ''@'' # d"
    by (cases ?r) auto
  from dot rd obtain x d' where dd: "d = x # d'"
    by (cases d) auto
  from dot rd dd have "d' \<noteq> []"
    by auto
  then obtain q z where dq: "d' = q @ [z]"
    by (metis rev_exhaust)
  from dot rd dd dq have "CHR ''.'' \<in> set q"
    by simp
  then obtain p q' where q: "q = p @ CHR ''.'' # q'"
    by (meson split_list)
  have s: "s = ?a @ ''@'' @ (x # p) @ ''.'' @ (q' @ [z])"
    using takeWhile_dropWhile_id [of "\<lambda>c. c \<noteq> CHR ''@''" s] rd dd dq q by simp
  have "list_all is_plain (x # p)" "list_all is_plain (q' @ [z])"
    using d rd dd dq q by simp_all
  with a s show ?thesis
    by (intro exI [of _ ?a] exI [of _ "x # p"] exI [of _ "q' @ [z]"]) simp
qed

lemma emailRegex_iff:
  "emailRegex s \<longleftrightarrow>
     (\<exists>a b c. s = a @ ''@'' @ b @ ''.'' @ c \<and> a \<noteq> [] \<and> b \<noteq> [] \<and> c \<noteq> [] \<and>
        list_all is_plain a \<and> list_all is_plain b \<and> list_all is_plain c)"
  using emailRegex_intro emailRegex_elim by blast

lemma emailRegex_at: "emailRegex e \<Longrightarrow> CHR ''@'' \<in> set e"
  by (auto simp: emailRegex_def Let_def dropWhile_eq_Nil_conv)

lemma at_not_word: "\<not> is_word CHR ''@''"
  by (simp add: is_word_def is_lower_def is_upper_def is_digit_def)

lemma email_is_no_username: "emailRegex e \<Longrightarrow> list_all is_word u \<Longrightarrow> u \<noteq> e"
  using emailRegex_at [of e] at_not_word by (auto simp: list_all_iff)

text \<open>
  What the validators return on the fields of the submitted form. A value that is empty
  falls back to the input, which holds the same text.
\<close>

lemma validateUsername_eq:
  "validateUsername form (trim (f_username form)) st =
     (username_ok st (trim (f_username form)),
      display (FieldError ''reg-username'' (\<not> username_ok st (trim (f_username form)))
        (if length (trim (f_username form)) < 3
         then ''Username must be at least 3 characters long''
         else if \<not> usernameRegex (trim (f_username form))
         then ''Username can only contain letters, numbers, and underscores''
         else if users_has st (trim (f_username form)) then ''Username already exists''
         else [])) st)"
  by (auto simp: validateUsername_def Let_def)

lemma validateEmail_eq:
  "validateEmail form (trim (f_email form)) st =
     (email_ok st (trim (f_email form)),
      display (FieldError ''reg-email'' (\<not> email_ok st (trim (f_email form)))
        (if \<not> emailRegex (trim (f_email form)) then ''Please enter a valid email address''
         else if email_registered st (trim (f_email form)) then ''Email already registered''
         else [])) st)"
  by (auto simp: validateEmail_def Let_def)

lemma validatePassword_eq:
  "validatePassword form (f_password form) st =
     (8 \<le> length (f_password form),
      display (PasswordStrength
                 (if length (f_password form) < 8 then 0 else password_strength (f_password form))
                 (if length (f_password form) < 8 then []
                  else strength_label (password_strength (f_password form))))
        (display (FieldError ''reg-password'' (length (f_password form) < 8)
                    (if length (f_password form) < 8
                     then ''Password must be at least 8 characters long'' else [])) st))"
  by (auto simp: validatePassword_def Let_def)

lemma validateConfirmPassword_eq:
  "validateConfirmPassword form (f_confirmPassword form) (f_password form) st =
     (f_confirmPassword form = f_password form,
      display (FieldError ''reg-confirm-password'' (f_confirmPassword form \<noteq> f_password form)
                 (if f_confirmPassword form \<noteq> f_password form then ''Passwords do not match''
                  else [])) st)"
  by (auto simp: validateConfirmPassword_def Let_def)

lemmas validate_eqs = validateUsername_eq validateEmail_eq validatePassword_eq
  validateConfirmPassword_eq

lemma validateRegistrationForm_fst:
  "fst (validateRegistrationForm form (trim (f_username form)) (trim (f_email form))
          (f_password form) (f_confirmPassword form) st) =
     (username_ok st (trim (f_username form)) \<and> email_ok st (trim (f_email form)) \<and>
      8 \<le> length (f_password form) \<and> f_confirmPassword form = f_password form)"
  by (simp add: validateRegistrationForm_def validate_eqs)

lemma validateRegistrationForm_snd:
  "snd (validateRegistrationForm form (trim (f_username form)) (trim (f_email form))
          (f_password form) (f_confirmPassword form) st) =
   st\<lparr>ui := ui st @
     [FieldError ''reg-username'' (\<not> username_ok st (trim (f_username form)))
        (if length (trim (f_username form)) < 3
         then ''Username must be at least 3 characters long''
         else if \<not> usernameRegex (trim (f_username form))
         then ''Username can only contain letters, numbers, and underscores''
         else if users_has st (trim (f_username form)) then ''Username already exists''
         else []),
      FieldError ''reg-email'' (\<not> email_ok st (trim (f_email form)))
        (if \<not> emailRegex (trim (f_email form)) then ''Please enter a valid email address''
         else if email_registered st (trim (f_email form)) then ''Email already registered''
         else []),
      FieldError ''reg-password'' (length (f_password form) < 8)
        (if length (f_password form) < 8
         then ''Password must be at least 8 characters long'' else []),
      PasswordStrength
        (if length (f_password form) < 8 then 0 else password_strength (f_password form))
        (if length (f_password form) < 8 then []
         else strength_label (password_strength (f_password form))),
      FieldError ''reg-confirm-password'' (f_confirmPassword form \<noteq> f_password form)
        (if f_confirmPassword form \<noteq> f_password form then ''Passwords do not match''
         else [])]\<rparr>"
  by (simp add: validateRegistrationForm_def validate_eqs split del: if_split cong: if_cong)
    (simp add: display_def split del: if_split cong: if_cong)

lemma validated_fields [simp]:
  "users (snd (validateRegistrationForm form (trim (f_username form)) (trim (f_email form))
             (f_password form) (f_confirmPassword form) st)) = users st"
  "heap (snd (validateRegistrationForm form (trim (f_username form)) (trim (f_email form))
             (f_password form) (f_confirmPassword form) st)) = heap st"
  by (simp_all add: validateRegistrationForm_snd)

text \<open>A form that fails a validator changes nothing but the display.\<close>

lemma handleRegistration_rejected:
  assumes "\<not> (username_ok st (trim (f_username form)) \<and> email_ok st (trim (f_email form)) \<and>
      8 \<le> length (f_password form) \<and> f_confirmPassword form = f_password form)"
  shows "handleRegistration now form st =
     snd (validateRegistrationForm form (trim (f_username form)) (trim (f_email form))
             (f_password form) (f_confirmPassword form) st)"
  using assms
  by (simp add: handleRegistration_def Let_def case_prod_beta validateRegistrationForm_fst
      split del: if_split)

text \<open>A form that passes the validators never meets the second check for a known name or
  address: the validators have made it already.\<close>

lemma handleRegistration_accepted:
  assumes "username_ok st (trim (f_username form))" "email_ok st (trim (f_email form))"
    "8 \<le> length (f_password form)" "f_confirmPassword form = f_password form"
  shows "heap (handleRegistration now form st) = heap st @
            [\<lparr>user_id = string_of_nat now, username = trim (f_username form),
              email = trim (f_email form), password = f_password form, signatures = [],
              enrollmentComplete = False, createdAt = now, lastLogin = None, authHistory = []\<rparr>]"
    and "users (handleRegistration now form st) =
           users st @ [(trim (f_username form), length (heap st))]"
    and "currentUser (handleRegistration now form st) = Some (length (heap st))"
    and "isAuthenticated (handleRegistration now form st)"
proof -
  let ?r = "validateRegistrationForm form (trim (f_username form)) (trim (f_email form))
             (f_password form) (f_confirmPassword form) st"
  have v: "fst ?r"
    using assms unfolding validateRegistrationForm_fst by simp
  have nu: "\<not> users_has (snd ?r) (trim (f_username form))"
    using assms(1) by (simp add: lookups_cong [OF validated_fields])
  have ne: "\<not> email_registered (snd ?r) (trim (f_email form))"
    using assms(2) by (simp add: lookups_cong [OF validated_fields])
  have fresh: "map_of (users st) (trim (f_username form)) = None"
    using assms(1) by (simp add: users_has_def)
  show "heap (handleRegistration now form st) = heap st @
            [\<lparr>user_id = string_of_nat now, username = trim (f_username form),
              email = trim (f_email form), password = f_password form, signatures = [],
              enrollmentComplete = False, createdAt = now, lastLogin = None, authHistory = []\<rparr>]"
    and "users (handleRegistration now form st) =
           users st @ [(trim (f_username form), length (heap st))]"
    and "currentUser (handleRegistration now form st) = Some (length (heap st))"
    and "isAuthenticated (handleRegistration now form st)"
    by (simp_all add: handleRegistration_def Let_def case_prod_beta v nu ne fresh display_defs
        map_set_fresh)
qed

text \<open>The notice of the second check is never shown, whatever the form.\<close>

lemma conflict_notice_is_never_shown:
  "Notification ''Username or email already exists!'' ''error''
     \<notin> set (drop (length (ui st)) (ui (handleRegistration now form st)))"
proof (cases "username_ok st (trim (f_username form)) \<and> email_ok st (trim (f_email form)) \<and>
      8 \<le> length (f_password form) \<and> f_confirmPassword form = f_password form")
  case False
  then show ?thesis
    by (simp add: handleRegistration_rejected validateRegistrationForm_snd)
next
  case True
  let ?r = "validateRegistrationForm form (trim (f_username form)) (trim (f_email form))
             (f_password form) (f_confirmPassword form) st"
  have v: "fst ?r"
    using True unfolding validateRegistrationForm_fst by simp
  from True have u: "\<not> users_has st (trim (f_username form))"
    and e: "\<not> email_registered st (trim (f_email form))"
    by blast+
  have nu: "\<not> users_has (snd ?r) (trim (f_username form))"
    using u by (simp add: lookups_cong [OF validated_fields])
  have ne: "\<not> email_registered (snd ?r) (trim (f_email form))"
    using e by (simp add: lookups_cong [OF validated_fields])
  have "ui (handleRegistration now form st) =
      ui (snd ?r) @ [Notification ''Registration successful! Please complete enrollment.'' ''success'',
                     AuthStatus True]"
    by (simp add: handleRegistration_def Let_def case_prod_beta v nu ne display_defs)
  then show ?thesis
    by (simp add: validateRegistrationForm_snd)
qed

lemma bob_form_fields:
  "trim (f_username bob_form) = ''bob_2''"
  "trim (f_email bob_form) = ''bob@example.org''"
  "f_password bob_form = ''s3cret-word''"
  "f_confirmPassword bob_form = ''s3cret-word''"
  by (simp_all add: bob_form_def trim_def is_space_def)

lemma alice_form_fields:
  "trim (f_username alice_form) = ''alice''"
  "trim (f_email alice_form) = ''alice@example.com''"
  by (simp_all add: alice_form_def trim_def is_space_def)

lemma enrolled_session_directory:
  "users enrolled_session = [(''alice'', 0)]"
  "username enrolled_user = ''alice''"
  "email enrolled_user = ''alice@example.com''"
  by (simp_all add: enrolled_session_def enrolled_user_def new_app_def)

lemma showPage_home:
  "showPage ''home'' st = st\<lparr>currentPage := ''home'', ui := ui st @ [PushState ''home'']\<rparr>"
  by (simp add: page_simps display_defs)



lemma init_fields:
  "users (init st) = users (loadUserData st)"
  "heap (init st) = heap (loadUserData st)"
  "currentUser (init st) = currentUser (loadUserData st)"
  "isAuthenticated (init st) = isAuthenticated (loadUserData st)"
  "storage (init st) = storage (loadUserData st)"
  "recordedChunks (init st) = recordedChunks (loadUserData st)"
  by (simp_all add: init_def showPage_home checkAuthStatus_def display_defs)


lemma reload_session:
  assumes "airauth_users (storage st) = Some usersData"
    "airauth_current_user (storage st) = Some u" "airauth_authenticated (storage st) = Some ''true''"
  shows "currentUser (reload st) = Some (length usersData)"
    and "deref (reload st) (length usersData) = u"
    and "isAuthenticated (reload st)"
    and "length usersData < length (heap (reload st))"
    and "recordedChunks (reload st) = []"
  using assms
  by (simp_all add: reload_def init_fields loadUserData_def new_app_def Let_def deref_def nth_append)

lemma saveSignature_heap:
  assumes "currentUser st = Some a" "recordedChunks st \<noteq> []"
  shows "heap (saveSignature now url st) =
     (heap st)[a := (heap st ! a)\<lparr>signatures := signatures (heap st ! a) @
          [\<lparr>sig_id = string_of_nat now, videoUrl = url, blob = Blob (concat (recordedChunks st)),
            sig_timestamp = now, duration = length (recordedChunks st)\<rparr>],
        enrollmentComplete := (if a < length (heap st) \<and> 4 \<le> length (signatures (heap st ! a))
                               then True else enrollmentComplete (heap st ! a))\<rparr>]"
  using assms
  by (cases "a < length (heap st)")
     (auto simp: saveSignature_def Let_def display_defs update_user_def deref_def list_update_beyond)

lemma saveSignature_storage:
  assumes "currentUser st = Some a" "a < length (heap st)" "isAuthenticated st"
    "recordedChunks st \<noteq> []"
  shows "airauth_current_user (storage (saveSignature now url st)) =
           Some (json_user ((heap st ! a)\<lparr>signatures := signatures (heap st ! a) @
          [\<lparr>sig_id = string_of_nat now, videoUrl = url, blob = Blob (concat (recordedChunks st)),
            sig_timestamp = now, duration = length (recordedChunks st)\<rparr>]\<rparr>))"
    and "airauth_authenticated (storage (saveSignature now url st)) = Some ''true''"
    and "airauth_users (storage (saveSignature now url st)) \<noteq> None"
  using assms
  by (simp_all add: saveSignature_def Let_def display_defs update_user_def deref_def
      saveUserData_def)






lemma handleLogin_rejected:
  assumes "find_user st (trim (l_username form)) = None \<or>
           (\<exists>a. find_user st (trim (l_username form)) = Some a \<and>
                password (deref st a) \<noteq> l_password form)"
  shows "handleLogin now form st =
           addAuthHistory now ''Password Login'' False ''Invalid credentials''
             (showNotification ''Invalid username/email or password!'' ''error'' st)"
  using assms by (auto simp: handleLogin_def Let_def)

text \<open>The run of the sample user, field by field.\<close>

lemma started_fields:
  "users started = []" "heap started = []" "currentUser started = None"
  by (simp_all add: started_def init_fields loadUserData_def new_app_def empty_storage_def)

lemma registered_fields:
  "currentUser registered = Some 0" "isAuthenticated registered"
  "users registered = [(''alice'', 0)]"
  "heap registered = [\<lparr>user_id = string_of_nat 1000, username = ''alice'',
      email = ''alice@example.com'', password = ''password1'', signatures = [],
      enrollmentComplete = False, createdAt = 1000, lastLogin = None, authHistory = []\<rparr>]"
proof -
  have u: "username_ok started (trim (f_username alice_form))"
    by (simp add: alice_form_fields usernameRegex_def is_word_def is_lower_def is_upper_def
        is_digit_def users_has_def started_fields)
  have e: "email_ok started (trim (f_email alice_form))"
    by (simp add: alice_form_fields emailRegex_def is_plain_def is_space_def
        email_registered_def users_values_def started_fields)
  have p: "8 \<le> length (f_password alice_form)"
    "f_confirmPassword alice_form = f_password alice_form"
    by (simp_all add: alice_form_def)
  note acc = handleRegistration_accepted [OF u e p, of 1000]
  show "currentUser registered = Some 0" "isAuthenticated registered"
    "users registered = [(''alice'', 0)]"
    "heap registered = [\<lparr>user_id = string_of_nat 1000, username = ''alice'',
      email = ''alice@example.com'', password = ''password1'', signatures = [],
      enrollmentComplete = False, createdAt = 1000, lastLogin = None, authHistory = []\<rparr>]"
    using acc
    by (simp_all add: registered_def started_fields alice_form_fields) (simp add: alice_form_def)
qed

lemma showPage_enrollment_fields:
  "currentUser (showPage ''enrollment'' st) = currentUser st"
  "isAuthenticated (showPage ''enrollment'' st) = isAuthenticated st"
  "users (showPage ''enrollment'' st) = users st"
  "heap (showPage ''enrollment'' st) = heap st"
  by (simp_all add: page_simps display_defs resetEnrollment_def stopCamera_def Let_def)

lemma camera_on_fields:
  "currentUser camera_on = Some 0" "isAuthenticated camera_on" "webcamStream camera_on"
  "users camera_on = [(''alice'', 0)]"
  "heap camera_on = heap registered"
  by (simp_all add: camera_on_def startCamera_def runTimer_def display_defs
      showPage_enrollment_fields registered_fields)

lemma recorded_fields:
  assumes "webcamStream st"
  shows "recordedChunks (recorded st) = [''clip'']"
    "currentUser (recorded st) = currentUser st" "isAuthenticated (recorded st) = isAuthenticated st"
    "users (recorded st) = users st" "heap (recorded st) = heap st"
    "webcamStream (recorded st)"
  using assms
  by (simp_all add: recorded_def startRecording_def ondataavailable_def stopRecording_def
      onstop_def display_defs)

lemma saveSignature_fields:
  "currentUser (saveSignature now url st) = currentUser st"
  "isAuthenticated (saveSignature now url st) = isAuthenticated st"
  "users (saveSignature now url st) = users st"
  "webcamStream (saveSignature now url st) = webcamStream st"
  by (simp_all add: saveSignature_def Let_def display_defs update_user_def split: option.splits)

lemma record_and_save_session:
  assumes "currentUser st = Some a" "a < length (heap st)" "webcamStream st"
  shows "currentUser (record_and_save now st) = Some a"
    "a < length (heap (record_and_save now st))"
    "webcamStream (record_and_save now st)"
    "isAuthenticated (record_and_save now st) = isAuthenticated st"
    "users (record_and_save now st) = users st"
    "length (signatures (deref (record_and_save now st) a)) = Suc (length (signatures (deref st a)))"
    "enrollmentComplete (deref (record_and_save now st) a) =
       (enrollmentComplete (deref st a) \<or> 4 \<le> length (signatures (deref st a)))"
proof -
  have c: "currentUser (recorded st) = Some a" "recordedChunks (recorded st) \<noteq> []"
    using assms by (simp_all add: recorded_fields)
  show "currentUser (record_and_save now st) = Some a"
    "a < length (heap (record_and_save now st))"
    "webcamStream (record_and_save now st)"
    "isAuthenticated (record_and_save now st) = isAuthenticated st"
    "users (record_and_save now st) = users st"
    "length (signatures (deref (record_and_save now st) a)) = Suc (length (signatures (deref st a)))"
    "enrollmentComplete (deref (record_and_save now st) a) =
       (enrollmentComplete (deref st a) \<or> 4 \<le> length (signatures (deref st a)))"
    using assms
    by (simp_all add: record_and_save_def saveSignature_fields saveSignature_heap [OF c]
        recorded_fields deref_def)
qed

lemma four_saved_fields:
  "currentUser four_saved = Some 0" "0 < length (heap four_saved)" "webcamStream four_saved"
  "isAuthenticated four_saved" "length (signatures (deref four_saved 0)) = 4"
  "\<not> enrollmentComplete (deref four_saved 0)" "users four_saved = [(''alice'', 0)]"
proof -
  have z: "0 < length (heap camera_on)"
    by (simp add: camera_on_fields registered_fields)
  have s0: "length (signatures (deref camera_on 0)) = 0" "\<not> enrollmentComplete (deref camera_on 0)"
    by (simp_all add: deref_def camera_on_fields registered_fields)
  note s1 = record_and_save_session [OF camera_on_fields(1) z camera_on_fields(3), of 2001]
  note s2 = record_and_save_session [OF s1(1) s1(2) s1(3), of 2002]
  note s3 = record_and_save_session [OF s2(1) s2(2) s2(3), of 2003]
  note s4 = record_and_save_session [OF s3(1) s3(2) s3(3), of 2004]
  show "currentUser four_saved = Some 0" "0 < length (heap four_saved)" "webcamStream four_saved"
    "isAuthenticated four_saved" "length (signatures (deref four_saved 0)) = 4"
    "\<not> enrollmentComplete (deref four_saved 0)" "users four_saved = [(''alice'', 0)]"
    unfolding four_saved_def
    using s0 s1 s2 s3 s4 camera_on_fields by simp_all
qed

subsection \<open>Navigation\<close>

text \<open>
  C9. A request for the dashboard while nobody is logged in ends on the login page: the
  state changes only in the current page and in three display events (the notice, the
  fragment of the login page and the fragment of the dashboard, pushed last). None of the
  dashboard's own entry actions, the profile, the statistics and the history table, runs.
\<close>

theorem dashboard_without_session_resolves_to_login:
  assumes "currentUser st = None"
  shows "showPage ''dashboard'' st =
           st\<lparr>currentPage := ''login'',
              ui := ui st @ [Notification ''Please log in to access dashboard'' ''error'',
                             PushState ''login'', PushState ''dashboard'']\<rparr>
         \<and> currentPage (showPage ''dashboard'' st) = ''login''
         \<and> ProfileInfo \<notin> set (drop (length (ui st)) (ui (showPage ''dashboard'' st)))
         \<and> AuthStats \<notin> set (drop (length (ui st)) (ui (showPage ''dashboard'' st)))
         \<and> AuthHistoryTable \<notin> set (drop (length (ui st)) (ui (showPage ''dashboard'' st)))"
  using assms by (simp add: page_simps display_defs)

theorem dashboard_without_session_resolves_to_login_witness:
  "currentUser (new_app empty_storage) = None
   \<and> currentPage (showPage ''dashboard'' (new_app empty_storage)) = ''login''
   \<and> ui (showPage ''dashboard'' (new_app empty_storage)) =
       [Notification ''Please log in to access dashboard'' ''error'',
        PushState ''login'', PushState ''dashboard'']"
proof -
  have none: "currentUser (new_app empty_storage) = None"
    by (simp add: new_app_def)
  show ?thesis
    using none dashboard_without_session_resolves_to_login [OF none]
    by (simp add: new_app_def)
qed

text \<open>
  C4, as the spec words it: every request for the authentication test page by a user who
  has not completed enrollment, or with nobody logged in, ends on the enrollment page.
  A request by page id does not: \<open>resetAuthTest\<close> checks nothing, and on a fresh
  application, with nobody logged in, \<open>showPage\<close> leaves the authentication test page
  current.
\<close>

theorem auth_test_by_page_id_is_not_guarded:
  "currentUser (new_app empty_storage) = None
   \<and> currentPage (showPage ''auth-test'' (new_app empty_storage)) = ''auth-test''
   \<and> currentPage (showPage ''auth-test'' (new_app empty_storage)) \<noteq> ''enrollment''"
  by (simp add: page_simps display_defs new_app_def resetAuthTest_def stopCamera_def)

text \<open>
  C4, amended: the guard sits in \<open>handleAirAuth\<close>, the handler of the air authentication
  button. A request made through it with nobody logged in, or by a user whose account has
  not completed enrollment, ends on the enrollment page.
\<close>

theorem air_auth_button_resolves_to_enrollment:
  assumes "currentUser st = None \<or>
           (\<exists>a. currentUser st = Some a \<and> \<not> enrollmentComplete (deref st a))"
  shows "currentPage (handleAirAuth st) = ''enrollment''"
  using assms by (auto simp: handleAirAuth_def showPage_enrollment)

theorem air_auth_button_resolves_to_enrollment_witness:
  "currentUser (new_app empty_storage) = None
   \<and> currentPage (handleAirAuth (new_app empty_storage)) = ''enrollment''"
proof -
  have none: "currentUser (new_app empty_storage) = None"
    by (simp add: new_app_def)
  then have "currentUser (new_app empty_storage) = None \<or>
      (\<exists>a. currentUser (new_app empty_storage) = Some a
            \<and> \<not> enrollmentComplete (deref (new_app empty_storage) a))"
    by simp
  from air_auth_button_resolves_to_enrollment [OF this] none show ?thesis
    by simp
qed

subsection \<open>Enrollment\<close>

text \<open>
  C10. When the logged-in account already holds five or more signatures and a clip has been
  recorded, \<open>saveSignature\<close> still appends the new signature at the end of the account's
  list, so the count grows by one, and the account's enrollment flag is true afterwards.
\<close>

theorem save_beyond_five_still_appends:
  assumes "currentUser st = Some a" "a < length (heap st)" "recordedChunks st \<noteq> []"
    "5 \<le> length (signatures (deref st a))"
  shows "signatures (deref (saveSignature now url st) a) =
           signatures (deref st a) @
             [\<lparr>sig_id = string_of_nat now, videoUrl = url,
               blob = Blob (concat (recordedChunks st)),
               sig_timestamp = now, duration = length (recordedChunks st)\<rparr>]
         \<and> length (signatures (deref (saveSignature now url st) a)) =
             Suc (length (signatures (deref st a)))
         \<and> enrollmentComplete (deref (saveSignature now url st) a)"
  using assms by (simp add: saveSignature_def Let_def display_defs update_user_def deref_def)

theorem save_beyond_five_still_appends_witness:
  "length (signatures (deref enrolled_session 0)) = 5
   \<and> length (signatures (deref (saveSignature 3000 ''blob:sixth'' enrolled_session) 0)) = 6
   \<and> enrollmentComplete (deref (saveSignature 3000 ''blob:sixth'' enrolled_session) 0)"
proof -
  have five: "5 \<le> length (signatures (deref enrolled_session 0))"
    by (simp add: enrolled_session_facts)
  from save_beyond_five_still_appends [OF enrolled_session_facts(1) enrolled_session_facts(2)
      enrolled_session_facts(5) five, of 3000 "''blob:sixth''"]
  show ?thesis
    by (simp add: enrolled_session_facts)
qed

subsection \<open>Authentication attempts\<close>

text \<open>
  C2. For a logged-in account that has completed enrollment, with the camera on, an attempt
  whose random source always returns 0.05 is a failure with a confidence between 30 and 70,
  and one whose source always returns 0.5 is a success with a confidence between 85 and 95.
  The outcome and the confidence are the ones the attempt writes to the account's history.
\<close>

theorem forced_random_source_decides_attempt:
  assumes "currentUser st = Some a" "a < length (heap st)" "enrollmentComplete (deref st a)"
    "webcamStream st"
  shows "fst (recognition (\<lambda>_. 1 / 20)) = False
         \<and> 30 \<le> snd (recognition (\<lambda>_. 1 / 20)) \<and> snd (recognition (\<lambda>_. 1 / 20)) \<le> 70
         \<and> authHistory (deref (authenticateGesture now (\<lambda>_. 1 / 20) st) a) =
             authHistory (deref st a) @
               [\<lparr>timestamp = now, auth_method = ''Air Signature'', success = False,
                 details = ''Low confidence ('' @
                   string_of_int (snd (recognition (\<lambda>_. 1 / 20))) @ ''%)''\<rparr>]
         \<and> fst (recognition (\<lambda>_. 1 / 2)) = True
         \<and> 85 \<le> snd (recognition (\<lambda>_. 1 / 2)) \<and> snd (recognition (\<lambda>_. 1 / 2)) \<le> 95
         \<and> authHistory (deref (authenticateGesture now (\<lambda>_. 1 / 2) st) a) =
             authHistory (deref st a) @
               [\<lparr>timestamp = now, auth_method = ''Air Signature'', success = True,
                 details = string_of_int (snd (recognition (\<lambda>_. 1 / 2))) @ ''% confidence''\<rparr>]"
  using assms
  by (simp add: authenticateGesture_heap deref_def recognition_low recognition_high)

theorem forced_random_source_decides_attempt_witness:
  "map success (authHistory (deref (authenticateGesture 4000 (\<lambda>_. 1 / 20) enrolled_session) 0))
     = [False]
   \<and> map success (authHistory (deref (authenticateGesture 4000 (\<lambda>_. 1 / 2) enrolled_session) 0))
     = [True]"
  using forced_random_source_decides_attempt [OF enrolled_session_facts(1)
      enrolled_session_facts(2) enrolled_session_facts(3) enrolled_session_facts(4), of 4000]
  by (simp add: enrolled_session_facts)

text \<open>
  C7, as the spec words it: every completed attempt appends one entry with the method tag
  \<open>gesture\<close>. The script tags the entry \<open>Air Signature\<close>: the one entry that an attempt
  in the sample session writes does not carry the tag \<open>gesture\<close>.
\<close>

theorem attempt_entry_is_not_tagged_gesture:
  "map auth_method (authHistory (deref (authenticateGesture 4000 (\<lambda>_. 1 / 2) enrolled_session) 0))
     = [''Air Signature'']
   \<and> ''gesture'' \<notin> set (map auth_method
         (authHistory (deref (authenticateGesture 4000 (\<lambda>_. 1 / 2) enrolled_session) 0)))"
  using authenticateGesture_heap [OF enrolled_session_facts(1) enrolled_session_facts(3)
      enrolled_session_facts(4), of 4000 "\<lambda>_. 1 / 2"]
  by (simp add: deref_def enrolled_session_heap recognition_high)

text \<open>
  C7, amended: every completed attempt of a logged-in, enrolled user with the camera on,
  whatever the random source draws, appends exactly one entry to the account's history. The
  entry has the method tag \<open>Air Signature\<close>, the outcome of the attempt and a detail text
  that embeds the confidence. Nothing else in the store changes: no object is added and
  every other account is as before.
\<close>

theorem attempt_appends_one_history_entry:
  assumes "currentUser st = Some a" "a < length (heap st)" "enrollmentComplete (deref st a)"
    "webcamStream st"
  shows "authHistory (deref (authenticateGesture now uniform st) a) =
           authHistory (deref st a) @
             [\<lparr>timestamp = now, auth_method = ''Air Signature'',
               success = fst (recognition uniform),
               details = (if fst (recognition uniform)
                          then string_of_int (snd (recognition uniform)) @ ''% confidence''
                          else ''Low confidence ('' @ string_of_int (snd (recognition uniform)) @
                               ''%)'')\<rparr>]
         \<and> length (authHistory (deref (authenticateGesture now uniform st) a)) =
             Suc (length (authHistory (deref st a)))
         \<and> length (heap (authenticateGesture now uniform st)) = length (heap st)
         \<and> (\<forall>b. b \<noteq> a \<longrightarrow> deref (authenticateGesture now uniform st) b = deref st b)"
  using assms by (simp add: authenticateGesture_heap deref_def)

theorem attempt_appends_one_history_entry_witness:
  "authHistory (deref (authenticateGesture 4000 (\<lambda>_. 1 / 20) enrolled_session) 0) =
     [\<lparr>timestamp = 4000, auth_method = ''Air Signature'', success = False,
       details = ''Low confidence (32%)''\<rparr>]"
proof -
  have "string_of_int 32 = ''32''"
    by code_simp
  with attempt_appends_one_history_entry [OF enrolled_session_facts(1) enrolled_session_facts(2)
      enrolled_session_facts(3) enrolled_session_facts(4), of 4000 "\<lambda>_. 1 / 20"]
  show ?thesis
    by (simp add: enrolled_session_facts recognition_low)
qed

subsection \<open>Registration\<close>

text \<open>
  C5. A registration whose inputs are valid (a username, read without the blanks around it,
  of at least three letters, digits or underscores; an address that matches the script's
  pattern; a password of at least eight characters, confirmed as typed; neither the name nor
  the address known to the directory) creates an account with no signature and no history.
  The account is the last entry of the directory, under its username; the lookup by
  username, the lookup by address and the lookup of the login (when no username of the
  directory is spelled like the address) all return it, and it is the logged-in user. The
  directory is taken to refer to objects of the store only.
\<close>

theorem valid_registration_creates_account:
  assumes "3 \<le> length (trim (f_username form))" "list_all is_word (trim (f_username form))"
    "emailRegex (trim (f_email form))" "8 \<le> length (f_password form)"
    "f_confirmPassword form = f_password form"
    "\<not> users_has st (trim (f_username form))" "\<not> email_registered st (trim (f_email form))"
    "list_all (\<lambda>b. b < length (heap st)) (users_values st)"
  shows "heap (handleRegistration now form st) = heap st @
            [\<lparr>user_id = string_of_nat now, username = trim (f_username form),
              email = trim (f_email form), password = f_password form, signatures = [],
              enrollmentComplete = False, createdAt = now, lastLogin = None, authHistory = []\<rparr>]
     \<and> users (handleRegistration now form st) =
         users st @ [(trim (f_username form), length (heap st))]
     \<and> signatures (deref (handleRegistration now form st) (length (heap st))) = []
     \<and> authHistory (deref (handleRegistration now form st) (length (heap st))) = []
     \<and> users_get (handleRegistration now form st) (trim (f_username form)) =
         Some (length (heap st))
     \<and> find_by_email (handleRegistration now form st) (trim (f_email form)) =
         Some (length (heap st))
     \<and> find_user (handleRegistration now form st) (trim (f_username form)) =
         Some (length (heap st))
     \<and> (\<not> users_has st (trim (f_email form)) \<longrightarrow>
          find_user (handleRegistration now form st) (trim (f_email form)) =
            Some (length (heap st)))
     \<and> currentUser (handleRegistration now form st) = Some (length (heap st))
     \<and> isAuthenticated (handleRegistration now form st)"
proof -
  let ?st' = "handleRegistration now form st"
  let ?u = "trim (f_username form)" and ?e = "trim (f_email form)" and ?a = "length (heap st)"
  have uok: "username_ok st ?u"
    using assms(1,2,6) by (auto simp: usernameRegex_def)
  have eok: "email_ok st ?e"
    using assms(3,7) by simp
  note acc = handleRegistration_accepted [OF uok eok assms(4) assms(5), of now]
  have fresh: "map_of (users st) ?u = None"
    using assms(6) by (simp add: users_has_def)
  have get: "users_get ?st' ?u = Some ?a"
    using fresh by (simp add: users_get_def acc(2) map_add_def)
  have others: "\<forall>b \<in> set (map snd (users st)). \<not> email (deref ?st' b) = ?e"
    using assms(7,8)
    by (auto simp: email_registered_def users_values_def deref_def acc(1) nth_append
        list_all_iff list_ex_iff)
  have new: "email (deref ?st' ?a) = ?e"
    by (simp add: deref_def acc(1))
  have byemail: "find_by_email ?st' ?e = Some ?a"
    using find_snoc [of "map snd (users st)" "\<lambda>b. email (deref ?st' b) = ?e" ?a] others new
    by (simp add: find_by_email_def users_values_def acc(2))
  have nokey: "\<not> users_has st ?e \<Longrightarrow> users_get ?st' ?e = None"
    using email_is_no_username [OF assms(3) assms(2)]
    by (auto simp: users_has_def users_get_def acc(2) map_add_def)
  show ?thesis
    using get byemail nokey acc
    by (simp add: find_user_def deref_def)
qed

theorem valid_registration_creates_account_witness:
  "users (handleRegistration 7000 bob_form enrolled_session) = [(''alice'', 0), (''bob_2'', 1)]
   \<and> find_user (handleRegistration 7000 bob_form enrolled_session) ''bob_2'' = Some 1
   \<and> find_user (handleRegistration 7000 bob_form enrolled_session) ''bob@example.org'' = Some 1
   \<and> find_by_email (handleRegistration 7000 bob_form enrolled_session) ''bob@example.org'' = Some 1
   \<and> currentUser (handleRegistration 7000 bob_form enrolled_session) = Some 1
   \<and> signatures (deref (handleRegistration 7000 bob_form enrolled_session) 1) = []
   \<and> authHistory (deref (handleRegistration 7000 bob_form enrolled_session) 1) = []"
proof -
  have h1: "3 \<le> length (trim (f_username bob_form))"
    by (simp add: bob_form_fields)
  have h2: "list_all is_word (trim (f_username bob_form))"
    by (simp add: bob_form_fields is_word_def is_lower_def is_upper_def is_digit_def)
  have h3: "emailRegex (trim (f_email bob_form))"
    by (simp add: bob_form_fields emailRegex_def is_plain_def is_space_def)
  have h4: "8 \<le> length (f_password bob_form)"
    by (simp add: bob_form_fields)
  have h5: "f_confirmPassword bob_form = f_password bob_form"
    by (simp add: bob_form_fields)
  have h6: "\<not> users_has enrolled_session (trim (f_username bob_form))"
    by (simp add: bob_form_fields users_has_def enrolled_session_directory)
  have h7: "\<not> email_registered enrolled_session (trim (f_email bob_form))"
    by (simp add: bob_form_fields email_registered_def users_values_def deref_def
        enrolled_session_directory enrolled_session_heap)
  have h8: "list_all (\<lambda>b. b < length (heap enrolled_session)) (users_values enrolled_session)"
    by (simp add: users_values_def enrolled_session_directory enrolled_session_heap)
  have h9: "\<not> users_has enrolled_session (trim (f_email bob_form))"
    by (simp add: bob_form_fields users_has_def enrolled_session_directory)
  from valid_registration_creates_account [OF h1 h2 h3 h4 h5 h6 h7 h8, of 7000] h9
  show ?thesis
    by (simp add: bob_form_fields enrolled_session_directory enrolled_session_heap)
qed

text \<open>
  C6. A registration whose username or address, read without the blanks around it, is
  already in the directory (compared exactly, letter case included) fails and changes
  nothing but the display: the directory, the store, the session, the local storage and the
  pending timers stay as they are. The failure is reported on the field that collides: a
  known username is marked in error, with the text \<open>Username already exists\<close> when it is
  otherwise well formed, and a known address likewise, with \<open>Email already registered\<close>.
  The notice of a successful registration is not shown.
\<close>

theorem duplicate_registration_changes_nothing:
  assumes "users_has st (trim (f_username form)) \<or> email_registered st (trim (f_email form))"
  shows "\<exists>evs. handleRegistration now form st = st\<lparr>ui := ui st @ evs\<rparr>
           \<and> (users_has st (trim (f_username form)) \<and> 3 \<le> length (trim (f_username form))
                \<and> usernameRegex (trim (f_username form))
                \<longrightarrow> FieldError ''reg-username'' True ''Username already exists'' \<in> set evs)
           \<and> (email_registered st (trim (f_email form)) \<and> emailRegex (trim (f_email form))
                \<longrightarrow> FieldError ''reg-email'' True ''Email already registered'' \<in> set evs)
           \<and> (users_has st (trim (f_username form))
                \<longrightarrow> (\<exists>msg. FieldError ''reg-username'' True msg \<in> set evs))
           \<and> (email_registered st (trim (f_email form))
                \<longrightarrow> (\<exists>msg. FieldError ''reg-email'' True msg \<in> set evs))
           \<and> Notification ''Registration successful! Please complete enrollment.'' ''success''
                \<notin> set evs"
proof -
  have "\<not> (username_ok st (trim (f_username form)) \<and> email_ok st (trim (f_email form)) \<and>
      8 \<le> length (f_password form) \<and> f_confirmPassword form = f_password form)"
    using assms by auto
  then have eq: "handleRegistration now form st =
     snd (validateRegistrationForm form (trim (f_username form)) (trim (f_email form))
             (f_password form) (f_confirmPassword form) st)"
    by (rule handleRegistration_rejected)
  show ?thesis
    unfolding eq validateRegistrationForm_snd
    by (rule exI, rule conjI, rule refl) simp
qed

theorem duplicate_registration_changes_nothing_witness:
  "users_has enrolled_session ''alice''
   \<and> email_registered enrolled_session ''alice@example.com''
   \<and> users (handleRegistration 8000 alice_form enrolled_session) = users enrolled_session
   \<and> heap (handleRegistration 8000 alice_form enrolled_session) = heap enrolled_session
   \<and> FieldError ''reg-username'' True ''Username already exists''
        \<in> set (ui (handleRegistration 8000 alice_form enrolled_session))
   \<and> FieldError ''reg-email'' True ''Email already registered''
        \<in> set (ui (handleRegistration 8000 alice_form enrolled_session))"
proof -
  have taken: "users_has enrolled_session (trim (f_username alice_form))"
    by (simp add: alice_form_fields users_has_def enrolled_session_directory)
  have known: "email_registered enrolled_session (trim (f_email alice_form))"
    by (simp add: alice_form_fields email_registered_def users_values_def deref_def
        enrolled_session_directory enrolled_session_heap)
  have wf: "3 \<le> length (trim (f_username alice_form)) \<and> usernameRegex (trim (f_username alice_form))
      \<and> emailRegex (trim (f_email alice_form))"
    by (simp add: alice_form_fields usernameRegex_def is_word_def is_lower_def is_upper_def
        is_digit_def emailRegex_def is_plain_def is_space_def)
  from taken have "users_has enrolled_session (trim (f_username alice_form))
      \<or> email_registered enrolled_session (trim (f_email alice_form))"
    by simp
  from duplicate_registration_changes_nothing [OF this, of 8000] taken known wf
  show ?thesis
    by (auto simp: alice_form_fields)
qed

subsection \<open>Login\<close>

text \<open>
  C3. The script breaks the claim. The failure branch of \<open>handleLogin\<close> calls
  \<open>addAuthHistory\<close> to record the failed login, but \<open>addAuthHistory\<close> writes to the
  history of \<open>currentUser\<close>, and the branch, unlike the one of a success, has not made the
  account that the login named the current user. So for every login that names an account
  with a wrong password, while that account is not the logged-in one, the account and its
  history are as before. With nobody logged in the call returns at once and the whole
  attempt leaves nothing but the notice on the display; with another user logged in the
  failed entry, tagged \<open>Password Login\<close>, goes to that user's history. The session is left
  as it was, as the claim says.
\<close>

theorem failed_login_misses_the_attempted_account:
  assumes "find_user st (trim (l_username form)) = Some a"
    "password (deref st a) \<noteq> l_password form"
    "currentUser st \<noteq> Some a"
  shows "deref (handleLogin now form st) a = deref st a
       \<and> authHistory (deref (handleLogin now form st) a) = authHistory (deref st a)
       \<and> currentUser (handleLogin now form st) = currentUser st
       \<and> isAuthenticated (handleLogin now form st) = isAuthenticated st
       \<and> (currentUser st = None \<longrightarrow>
            handleLogin now form st =
              st\<lparr>ui := ui st @ [Notification ''Invalid username/email or password!'' ''error'']\<rparr>)
       \<and> (\<forall>c. currentUser st = Some c \<and> c < length (heap st) \<longrightarrow>
            authHistory (deref (handleLogin now form st) c) =
              authHistory (deref st c) @
                [\<lparr>timestamp = now, auth_method = ''Password Login'', success = False,
                  details = ''Invalid credentials''\<rparr>])"
proof -
  have failed: "find_user st (trim (l_username form)) = None \<or>
           (\<exists>a. find_user st (trim (l_username form)) = Some a \<and>
                password (deref st a) \<noteq> l_password form)"
    using assms(1,2) by simp
  note eq = handleLogin_rejected [OF failed, of now]
  have same: "deref (handleLogin now form st) a = deref st a"
    unfolding eq using assms(3)
    by (cases "currentUser st")
      (auto simp: addAuthHistory_def update_user_def display_defs Let_def deref_def)
  have session: "currentUser (handleLogin now form st) = currentUser st
       \<and> isAuthenticated (handleLogin now form st) = isAuthenticated st"
    unfolding eq
    by (simp add: addAuthHistory_def update_user_def display_defs Let_def split: option.splits)
  have dropped: "currentUser st = None \<Longrightarrow>
      handleLogin now form st =
        st\<lparr>ui := ui st @ [Notification ''Invalid username/email or password!'' ''error'']\<rparr>"
    unfolding eq by (simp add: addAuthHistory_def display_defs)
  have elsewhere: "authHistory (deref (handleLogin now form st) c) =
              authHistory (deref st c) @
                [\<lparr>timestamp = now, auth_method = ''Password Login'', success = False,
                  details = ''Invalid credentials''\<rparr>]"
    if "currentUser st = Some c" "c < length (heap st)" for c
    unfolding eq using that
    by (simp add: addAuthHistory_def update_user_def display_defs Let_def deref_def)
  from same session dropped elsewhere show ?thesis
    by simp
qed

theorem failed_login_misses_the_attempted_account_witness:
  "find_user logged_out_session (trim (l_username wrong_login)) = Some 0
   \<and> password (deref logged_out_session 0) \<noteq> l_password wrong_login
   \<and> currentUser logged_out_session = None
   \<and> authHistory (deref (handleLogin 9000 wrong_login logged_out_session) 0) = []
   \<and> currentUser (handleLogin 9000 wrong_login logged_out_session) = None
   \<and> \<not> isAuthenticated (handleLogin 9000 wrong_login logged_out_session)
   \<and> heap (handleLogin 9000 wrong_login logged_out_session) = heap logged_out_session
   \<and> storage (handleLogin 9000 wrong_login logged_out_session) = storage logged_out_session"
proof -
  have found: "find_user logged_out_session (trim (l_username wrong_login)) = Some 0"
    by (simp add: find_user_def users_get_def wrong_login_def logged_out_session_def
        enrolled_session_directory trim_def is_space_def)
  have differs: "password (deref logged_out_session 0) \<noteq> l_password wrong_login"
    by (simp add: deref_def wrong_login_def logged_out_session_def enrolled_session_heap
        enrolled_user_def)
  have nobody: "currentUser logged_out_session = None"
    by (simp add: logged_out_session_def)
  then have other: "currentUser logged_out_session \<noteq> Some 0"
    by simp
  have before: "authHistory (deref logged_out_session 0) = []"
    "\<not> isAuthenticated logged_out_session"
    by (simp_all add: deref_def logged_out_session_def enrolled_session_heap)
  from failed_login_misses_the_attempted_account [OF found differs other, of 9000]
    found differs nobody before
  show ?thesis
    by (simp add: deref_def)
qed

subsection \<open>Persistence\<close>




subsection \<open>The enrollment flag\<close>

text \<open>
  In the running application \<open>saveSignature\<close> keeps the flag of the logged-in account in
  step with the number of its signatures, and the flag changes only when the fifth one is
  saved.
\<close>

lemma saveSignature_keeps_flag_in_step:
  assumes "currentUser st = Some a" "a < length (heap st)" "recordedChunks st \<noteq> []"
    "enrollmentComplete (deref st a) \<longleftrightarrow> 5 \<le> length (signatures (deref st a))"
  shows "enrollmentComplete (deref (saveSignature now url st) a) \<longleftrightarrow>
           5 \<le> length (signatures (deref (saveSignature now url st) a))"
    and "enrollmentComplete (deref (saveSignature now url st) a) \<noteq> enrollmentComplete (deref st a)
           \<longleftrightarrow> length (signatures (deref st a)) = 4"
  using assms by (auto simp: deref_def saveSignature_heap)

text \<open>A session that holds five signatures gets the flag with the next signature saved.\<close>

lemma reloaded_session_gets_flag_on_next_save:
  assumes "currentUser st = Some b" "b < length (heap st)" "recordedChunks st = []"
    "length (signatures (deref st b)) = 5" "c \<noteq> []"
  shows "enrollmentComplete (deref (saveSignature now url (ondataavailable c st)) b)"
  using assms
  by (simp add: deref_def saveSignature_heap ondataavailable_def)

text \<open>
  C1. The script breaks the claim for the stored account. \<open>saveSignature\<close> writes the
  local storage before it sets the flag and does not write it again: when the logged-in
  account holds four signatures and a fifth is saved, the account in memory has five
  signatures and the flag, while the account a reload brings back has five signatures and
  no flag. For that account it is the save of a sixth signature that sets the flag.
\<close>

theorem fifth_signature_is_stored_without_the_flag:
  assumes "currentUser st = Some a" "a < length (heap st)" "isAuthenticated st"
    "recordedChunks st \<noteq> []" "length (signatures (deref st a)) = 4"
    "\<not> enrollmentComplete (deref st a)" "c \<noteq> []"
  shows "length (signatures (deref (saveSignature now url st) a)) = 5
     \<and> enrollmentComplete (deref (saveSignature now url st) a)
     \<and> (\<exists>b. currentUser (reload (saveSignature now url st)) = Some b
            \<and> length (signatures (deref (reload (saveSignature now url st)) b)) = 5
            \<and> \<not> enrollmentComplete (deref (reload (saveSignature now url st)) b)
            \<and> enrollmentComplete
                 (deref (saveSignature now' url'
                    (ondataavailable c (reload (saveSignature now url st)))) b))"
proof -
  let ?st' = "saveSignature now url st"
  obtain usersData where ud: "airauth_users (storage ?st') = Some usersData"
    using saveSignature_storage(3) [OF assms(1-4), of now url] by auto
  note rs = reload_session [OF ud saveSignature_storage(1) [OF assms(1-4)]
      saveSignature_storage(2) [OF assms(1-4)]]
  have mem: "length (signatures (deref ?st' a)) = 5 \<and> enrollmentComplete (deref ?st' a)"
    using assms(2,5) by (simp add: deref_def saveSignature_heap [OF assms(1) assms(4)])
  have stored: "length (signatures (deref (reload ?st') (length usersData))) = 5
     \<and> \<not> enrollmentComplete (deref (reload ?st') (length usersData))"
    using assms(5,6) [unfolded deref_def] by (simp add: rs(2) json_user_def)
  then have five: "length (signatures (deref (reload ?st') (length usersData))) = 5"
    by simp
  have sixth: "enrollmentComplete
      (deref (saveSignature now' url' (ondataavailable c (reload ?st'))) (length usersData))"
    by (rule reloaded_session_gets_flag_on_next_save [OF rs(1) rs(4) rs(5) five assms(7)])
  from rs(1) mem stored sixth show ?thesis
    by simp
qed

theorem fifth_signature_is_stored_without_the_flag_witness:
  "length (signatures (deref (record_and_save 2005 four_saved) 0)) = 5
   \<and> enrollmentComplete (deref (record_and_save 2005 four_saved) 0)
   \<and> (\<exists>b. currentUser (reload (record_and_save 2005 four_saved)) = Some b
          \<and> length (signatures (deref (reload (record_and_save 2005 four_saved)) b)) = 5
          \<and> \<not> enrollmentComplete (deref (reload (record_and_save 2005 four_saved)) b)
          \<and> enrollmentComplete
               (deref (saveSignature 2006 ''blob:2006''
                  (ondataavailable ''clip'' (reload (record_and_save 2005 four_saved)))) b))"
proof -
  have cam: "webcamStream four_saved"
    by (rule four_saved_fields(3))
  have h1: "currentUser (recorded four_saved) = Some 0"
    and h2: "0 < length (heap (recorded four_saved))"
    and h3: "isAuthenticated (recorded four_saved)"
    and h4: "recordedChunks (recorded four_saved) \<noteq> []"
    and h5: "length (signatures (deref (recorded four_saved) 0)) = 4"
    and h6: "\<not> enrollmentComplete (deref (recorded four_saved) 0)"
    using four_saved_fields by (simp_all add: recorded_fields [OF cam] deref_def)
  have h7: "''clip'' \<noteq> []"
    by simp
  from fifth_signature_is_stored_without_the_flag [OF h1 h2 h3 h4 h5 h6 h7, of 2005
      "''blob:'' @ string_of_nat 2005" 2006 "''blob:2006''"]
  show ?thesis
    by (simp add: record_and_save_def)
qed

end
